theory Spec2Isabelle
  imports Complex_Main
begin

section \<open>Heart-risk predictor: request validation, feature mapping, inference\<close>

text \<open>
  The development follows \<^verbatim>\<open>fastapi_part/main.py\<close> (the service) and the result
  display of \<^verbatim>\<open>frontend/frontend.py\<close> (the client).

  Conventions of the embedding.
  \<^item> Python \<^verbatim>\<open>int\<close> is \<open>int\<close>. A Python \<^verbatim>\<open>float\<close> is \<open>pyfloat\<close>: a finite float,
    represented by the real number it denotes, or one of the three values that are not
    finite. The service only compares floats with bounds and passes them on; the
    probability that comes back from the model is finite and is rounded.
  \<^item> A request body is taken with the thirteen fields present and of the declared JSON
    types; what the framework does with a missing or ill-typed field is not modelled.
  \<^item> Python \<^verbatim>\<open>str\<close> is \<open>string\<close>.
  \<^item> A raised exception is a value: \<open>Inl\<close> of a sum, or the outcome \<open>Raised\<close>.
  \<^item> The calls a request causes (evaluation of a computed field, the two operations of
    the model) are recorded in a trace, so that "never invoked" can be stated.
\<close>

subsection \<open>Strings\<close>

text \<open>
  \<^verbatim>\<open>str.lower()\<close>. The letters A to Z go to a to z. Every other character is kept here;
  Python changes some characters outside ASCII as well, but none of them becomes one of
  the letters of the literals \<^verbatim>\<open>male\<close>, \<^verbatim>\<open>female\<close>, \<^verbatim>\<open>yes\<close>, \<^verbatim>\<open>no\<close>, the only
  strings a lowered label is compared with.
\<close>

definition lower_char :: "char \<Rightarrow> char" where
  "lower_char c =
     (let n = (of_char c :: nat) in if 65 \<le> n \<and> n \<le> 90 then char_of (n + 32) else c)"

definition lower :: "string \<Rightarrow> string" where
  "lower s = map lower_char s"

text \<open>\<^verbatim>\<open>str.upper()\<close> on one character, used to say what a case variant is.\<close>

definition upper_char :: "char \<Rightarrow> char" where
  "upper_char c =
     (let n = (of_char c :: nat) in if 97 \<le> n \<and> n \<le> 122 then char_of (n - 32) else c)"

text \<open>
  The case variants of a word: each character stands as it is or in upper case.
  For \<^verbatim>\<open>no\<close> these are \<^verbatim>\<open>no\<close>, \<^verbatim>\<open>nO\<close>, \<^verbatim>\<open>No\<close>, \<^verbatim>\<open>NO\<close>.
\<close>

fun case_variants :: "string \<Rightarrow> string list" where
  "case_variants [] = [[]]"
| "case_variants (c # cs) =
     concat (map (\<lambda>x. map (\<lambda>v. x # v) (case_variants cs)) [c, upper_char c])"

text \<open>A word of the letters a to z only, as the four literals are.\<close>

definition lowercase_word :: "string \<Rightarrow> bool" where
  "lowercase_word w = list_all (\<lambda>c. 97 \<le> (of_char c :: nat) \<and> (of_char c :: nat) \<le> 122) w"

text \<open>The quotation marks that three of the error messages put around the label.\<close>

definition quote :: "string \<Rightarrow> string" where
  "quote s = [CHR 0x27] @ s @ [CHR 0x27]"

subsection \<open>The request model\<close>

datatype py_error = ValueError string | IndexError

text \<open>
  A float as the JSON parser delivers it. A number too large for a double, such as
  \<^verbatim>\<open>1e400\<close>, is read as infinity, and the parser accepts the literals \<^verbatim>\<open>Infinity\<close>,
  \<^verbatim>\<open>-Infinity\<close> and \<^verbatim>\<open>NaN\<close>.
\<close>

datatype pyfloat = Finite real | PosInf | NegInf | NaN

text \<open>\<^verbatim>\<open>v >= bound\<close> and \<^verbatim>\<open>v <= bound\<close> for a finite bound; every comparison with NaN is false.\<close>

fun float_ge :: "pyfloat \<Rightarrow> real \<Rightarrow> bool" where
  "float_ge (Finite x) b = (b \<le> x)"
| "float_ge PosInf b = True"
| "float_ge NegInf b = False"
| "float_ge NaN b = False"

fun float_le :: "pyfloat \<Rightarrow> real \<Rightarrow> bool" where
  "float_le (Finite x) b = (x \<le> b)"
| "float_le PosInf b = False"
| "float_le NegInf b = True"
| "float_le NaN b = False"

datatype pyval = PyInt int | PyFloat pyfloat

text \<open>The number that a value is, as a float.\<close>

fun number :: "pyval \<Rightarrow> pyfloat" where
  "number (PyInt i) = Finite (of_int i)"
| "number (PyFloat x) = x"

text \<open>The input fields of \<^verbatim>\<open>class HeartFeatures(BaseModel)\<close>.\<close>

record HeartFeatures =
  age :: int
  sex_label :: string
  cp_label :: string
  trestbps :: pyfloat
  chol :: pyfloat
  fbs_raw :: int
  restecg_label :: string
  thalachh :: pyfloat
  exang_label :: string
  oldpeak :: pyfloat
  slope :: int
  ca :: int
  thal_label :: string

subsection \<open>Computed fields\<close>

text \<open>
  Each computed field is a property of the instance: it runs when the attribute is read,
  and returns the code or raises \<^verbatim>\<open>ValueError\<close>.
\<close>

definition sex :: "HeartFeatures \<Rightarrow> py_error + int" where
  "sex self =
     (let label = lower (sex_label self) in
      if label = ''male'' then Inr 1
      else if label = ''female'' then Inr 0
      else Inl (ValueError ''Invalid gender label: Must be 'Male' or 'Female'.''))"

definition cp_map :: "(string \<times> int) list" where
  "cp_map = [(''Typical angina'', 0), (''Atypical angina'', 1),
             (''Non-anginal pain'', 2), (''Asymptomatic'', 3)]"

definition cp :: "HeartFeatures \<Rightarrow> py_error + int" where
  "cp self =
     (case map_of cp_map (cp_label self) of
        Some v \<Rightarrow> Inr v
      | None \<Rightarrow> Inl (ValueError (''Invalid CP label: '' @ quote (cp_label self)
                                 @ ''. Check documentation for valid options.'')))"

definition fbs :: "HeartFeatures \<Rightarrow> py_error + int" where
  "fbs self = Inr (if fbs_raw self > 120 then 1 else 0)"

definition ecg_map :: "(string \<times> int) list" where
  "ecg_map = [(''Normal'', 0), (''ST-T wave abnormality'', 1),
              (''Left ventricular hypertrophy'', 2)]"

definition restecg :: "HeartFeatures \<Rightarrow> py_error + int" where
  "restecg self =
     (case map_of ecg_map (restecg_label self) of
        Some v \<Rightarrow> Inr v
      | None \<Rightarrow> Inl (ValueError (''Invalid RestECG label: '' @ quote (restecg_label self)
                                 @ ''.'')))"

definition exang :: "HeartFeatures \<Rightarrow> py_error + int" where
  "exang self =
     (if lower (exang_label self) = ''yes'' then Inr 1
      else if lower (exang_label self) = ''no'' then Inr 0
      else Inl (ValueError ''Invalid Exang label: Must be 'Yes' or 'No'.''))"

definition thal_map :: "(string \<times> int) list" where
  "thal_map = [(''Normal'', 1), (''Fixed defect'', 2), (''Reversible defect'', 3)]"

definition thal :: "HeartFeatures \<Rightarrow> py_error + int" where
  "thal self =
     (case map_of thal_map (thal_label self) of
        Some v \<Rightarrow> Inr v
      | None \<Rightarrow> Inl (ValueError (''Invalid Thalassemia label: '' @ quote (thal_label self)
                                 @ ''.'')))"

subsection \<open>Validation of the request body\<close>

text \<open>
  The handler's parameter is declared \<^verbatim>\<open>data: HeartFeatures\<close>, so the framework builds
  the instance from the request body before it calls the handler, and checks the
  constraints declared on the input fields: \<^verbatim>\<open>Field(ge=.., le=..)\<close> on six of them,
  \<^verbatim>\<open>Literal[..]\<close> on \<^verbatim>\<open>slope\<close> and \<^verbatim>\<open>ca\<close>. The five label fields are declared
  \<^verbatim>\<open>str\<close> with a description only, so every string passes. Computed fields are
  properties; building the instance does not read them. The errors of all fields are
  collected in declaration order, each with the field's name, the constraint that failed
  and the input value. A float that is not finite fails one of its two bounds, so the
  floats of an accepted instance are finite. An integer for \<^verbatim>\<open>slope\<close> or \<^verbatim>\<open>ca\<close> that
  does not fit 64 bits is refused for its size before it is compared with the literals.
\<close>

datatype constraint =
    GreaterThanEqual real
  | LessThanEqual real
  | LiteralError "int list"
  | IntParsingSize

type_synonym field_error = "string \<times> constraint \<times> pyval"

definition check_range :: "string \<Rightarrow> real \<Rightarrow> real \<Rightarrow> pyval \<Rightarrow> field_error list" where
  "check_range name lo hi v =
     (if \<not> float_ge (number v) lo then [(name, GreaterThanEqual lo, v)]
      else if \<not> float_le (number v) hi then [(name, LessThanEqual hi, v)]
      else [])"

definition check_literal :: "string \<Rightarrow> int list \<Rightarrow> int \<Rightarrow> field_error list" where
  "check_literal name allowed v =
     (if v < - (2 ^ 63) \<or> 2 ^ 63 \<le> v then [(name, IntParsingSize, PyInt v)]
      else if v \<in> set allowed then []
      else [(name, LiteralError allowed, PyInt v)])"

definition field_errors :: "HeartFeatures \<Rightarrow> field_error list" where
  "field_errors d =
     check_range ''age'' 25 90 (PyInt (age d)) @
     check_range ''trestbps'' 80 250 (PyFloat (trestbps d)) @
     check_range ''chol'' 100 600 (PyFloat (chol d)) @
     check_range ''fbs_raw'' 60 150 (PyInt (fbs_raw d)) @
     check_range ''thalachh'' 60 220 (PyFloat (thalachh d)) @
     check_range ''oldpeak'' 0.0 6.5 (PyFloat (oldpeak d)) @
     check_literal ''slope'' [0, 1, 2] (slope d) @
     check_literal ''ca'' [0, 1, 2, 3] (ca d)"

text \<open>
  The framework answers a body that fails validation with status 422 and the error list
  as JSON. JSON has no infinity and no NaN: when an error carries such an input, writing
  the answer raises \<^verbatim>\<open>ValueError\<close>, which nothing handles.
\<close>

fun json_compliant :: "pyval \<Rightarrow> bool" where
  "json_compliant (PyInt i) = True"
| "json_compliant (PyFloat (Finite x)) = True"
| "json_compliant (PyFloat PosInf) = False"
| "json_compliant (PyFloat NegInf) = False"
| "json_compliant (PyFloat NaN) = False"

definition renderable :: "field_error list \<Rightarrow> bool" where
  "renderable errs = list_all (\<lambda>(name, c, input). json_compliant input) errs"

subsection \<open>The model and the table it is given\<close>

type_synonym dict = "(string \<times> pyval) list"

text \<open>
  A table of one row: the columns in order, each with its cell. A column that the row
  does not have is an empty cell (\<open>None\<close>).
\<close>

type_synonym dataframe = "(string \<times> pyval option) list"

definition DataFrame :: "dict \<Rightarrow> string list \<Rightarrow> dataframe" where
  "DataFrame row columns = map (\<lambda>c. (c, map_of row c)) columns"

definition cell :: "dataframe \<Rightarrow> string \<Rightarrow> pyval option" where
  "cell df c = (case map_of df c of Some (Some v) \<Rightarrow> Some v | _ \<Rightarrow> None)"


text \<open>
  The pipeline is opaque: \<open>predict\<close> gives the class of the first row,
  \<open>predict_proba\<close> the first row's probabilities, one per class.
\<close>

record model =
  predict :: "dataframe \<Rightarrow> int"
  predict_proba :: "dataframe \<Rightarrow> real list"

text \<open>
  Loading at import time: two paths in turn. Only \<^verbatim>\<open>FileNotFoundError\<close> is caught;
  any other failure of \<^verbatim>\<open>joblib.load\<close> leaves the module and the service does not start.
\<close>

datatype load_result = Loaded model | FileNotFoundError | OtherError

datatype startup = Serving "model option" | Crashed

definition load_model_pipeline :: "(string \<Rightarrow> load_result) \<Rightarrow> startup" where
  "load_model_pipeline joblib_load =
     (case joblib_load ''../rf_pipeline.joblib'' of
        Loaded m \<Rightarrow> Serving (Some m)
      | OtherError \<Rightarrow> Crashed
      | FileNotFoundError \<Rightarrow>
          (case joblib_load ''rf_pipeline.joblib'' of
             Loaded m \<Rightarrow> Serving (Some m)
           | OtherError \<Rightarrow> Crashed
           | FileNotFoundError \<Rightarrow> Serving None))"

subsection \<open>The handler\<close>

datatype event = ComputedField string | Predict | PredictProba

text \<open>
  The dictionary literal of the handler reads thirteen attributes from top to bottom.
  Seven are input fields, six are computed fields, which run their mapping when read
  and may raise.
\<close>

datatype attribute =
    InputField "HeartFeatures \<Rightarrow> pyval"
  | Computed "HeartFeatures \<Rightarrow> py_error + int"

definition row_literal :: "(string \<times> attribute) list" where
  "row_literal =
     [(''age'', InputField (\<lambda>data. PyInt (age data))),
      (''sex'', Computed sex),
      (''cp'', Computed cp),
      (''trestbps'', InputField (\<lambda>data. PyFloat (trestbps data))),
      (''chol'', InputField (\<lambda>data. PyFloat (chol data))),
      (''fbs'', Computed fbs),
      (''restecg'', Computed restecg),
      (''thalachh'', InputField (\<lambda>data. PyFloat (thalachh data))),
      (''exang'', Computed exang),
      (''oldpeak'', InputField (\<lambda>data. PyFloat (oldpeak data))),
      (''slope'', InputField (\<lambda>data. PyInt (slope data))),
      (''ca'', InputField (\<lambda>data. PyInt (ca data))),
      (''thal'', Computed thal)]"

fun eval_dict ::
  "(string \<times> attribute) list \<Rightarrow> HeartFeatures \<Rightarrow> dict \<Rightarrow> event list
     \<Rightarrow> (py_error + dict) \<times> event list" where
  "eval_dict [] data acc tr = (Inr acc, tr)"
| "eval_dict ((k, InputField f) # rest) data acc tr =
     eval_dict rest data (acc @ [(k, f data)]) tr"
| "eval_dict ((k, Computed f) # rest) data acc tr =
     (case f data of
        Inl e \<Rightarrow> (Inl e, tr @ [ComputedField k])
      | Inr v \<Rightarrow> eval_dict rest data (acc @ [(k, PyInt v)]) (tr @ [ComputedField k]))"

definition FEATURE_ORDER :: "string list" where
  "FEATURE_ORDER =
     [''age'', ''sex'', ''cp'', ''trestbps'', ''chol'', ''fbs'', ''restecg'', ''thalachh'',
      ''exang'', ''oldpeak'', ''slope'', ''ca'', ''thal'']"

definition build_input_df :: "HeartFeatures \<Rightarrow> (py_error + dataframe) \<times> event list" where
  "build_input_df data =
     (case eval_dict row_literal data [] [] of
        (Inl e, tr) \<Rightarrow> (Inl e, tr)
      | (Inr row, tr) \<Rightarrow> (Inr (DataFrame row FEATURE_ORDER), tr))"

text \<open>
  \<^verbatim>\<open>round(x, ndigits)\<close> on a float: to the nearest multiple of \<open>10 ^ -ndigits\<close>, a tie
  to the even one. (The result is a real here; Python stores the float next to it.)
\<close>

definition round_half_even :: "real \<Rightarrow> int" where
  "round_half_even x =
     (let f = \<lfloor>x\<rfloor>; r = x - of_int f in
      if r < 1 / 2 then f
      else if 1 / 2 < r then f + 1
      else if even f then f else f + 1)"

definition py_round :: "real \<Rightarrow> nat \<Rightarrow> real" where
  "py_round x ndigits = of_int (round_half_even (x * 10 ^ ndigits)) / 10 ^ ndigits"

text \<open>\<^verbatim>\<open>xs[i]\<close> for an index that is not negative.\<close>

definition getitem :: "'a list \<Rightarrow> nat \<Rightarrow> py_error + 'a" where
  "getitem xs i = (if i < length xs then Inr (xs ! i) else Inl IndexError)"

datatype content =
    Message string
  | Verdict int real string \<comment> \<open>predicted_category, risk_score_probability, risk_level\<close>

text \<open>
  What a request ends in: the framework's answer to a body that fails validation
  (status 422, with the list of field errors), a response the handler returns, or an
  exception that nothing handles, which the server answers with its bare status 500.
\<close>

datatype outcome =
    RequestValidationError "field_error list"
  | JSONResponse int content
  | Raised py_error

fun status_code :: "outcome \<Rightarrow> int option" where
  "status_code (RequestValidationError errs) = Some 422"
| "status_code (JSONResponse st c) = Some st"
| "status_code (Raised e) = Some 500"

definition client_error :: "outcome \<Rightarrow> bool" where
  "client_error r = (case status_code r of Some st \<Rightarrow> 400 \<le> st \<and> st < 500 | None \<Rightarrow> False)"

definition predict_heart :: "model option \<Rightarrow> HeartFeatures \<Rightarrow> outcome \<times> event list" where
  "predict_heart model_pipeline data =
     (case model_pipeline of
        None \<Rightarrow> (JSONResponse 500 (Message ''Model not loaded.''), [])
      | Some m \<Rightarrow>
          (case build_input_df data of
             (Inl e, tr) \<Rightarrow> (Raised e, tr)
           | (Inr input_df, tr) \<Rightarrow>
               (let prediction = predict m input_df in
                case getitem (predict_proba m input_df) 1 of
                  Inl e \<Rightarrow> (Raised e, tr @ [Predict, PredictProba])
                | Inr risk_score \<Rightarrow>
                    (JSONResponse 200
                       (Verdict prediction (py_round risk_score 4)
                          (if prediction = 1 then ''High Risk'' else ''Low Risk'')),
                     tr @ [Predict, PredictProba]))))"

text \<open>\<^verbatim>\<open>POST /predict\<close>: validation of the body, then the handler.\<close>

definition post_predict :: "model option \<Rightarrow> HeartFeatures \<Rightarrow> outcome \<times> event list" where
  "post_predict model_pipeline body =
     (if field_errors body = [] then predict_heart model_pipeline body
      else if renderable (field_errors body) then (RequestValidationError (field_errors body), [])
      else (Raised (ValueError ''Out of range float values are not JSON compliant''), []))"

text \<open>The service from its start: \<open>None\<close> when the module did not load.\<close>

definition service ::
  "(string \<Rightarrow> load_result) \<Rightarrow> HeartFeatures \<Rightarrow> (outcome \<times> event list) option" where
  "service joblib_load body =
     (case load_model_pipeline joblib_load of
        Crashed \<Rightarrow> None
      | Serving model_pipeline \<Rightarrow> Some (post_predict model_pipeline body))"

subsection \<open>The client's display of the result\<close>

text \<open>\<^verbatim>\<open>s.startswith(p)\<close> and \<^verbatim>\<open>sub in s\<close> on strings.\<close>

fun startswith :: "string \<Rightarrow> string \<Rightarrow> bool" where
  "startswith s [] = True"
| "startswith [] (p # ps) = False"
| "startswith (c # cs) (p # ps) = (c = p \<and> startswith cs ps)"

fun str_contains :: "string \<Rightarrow> string \<Rightarrow> bool" where
  "str_contains sub [] = (sub = [])"
| "str_contains sub (c # cs) = (startswith (c # cs) sub \<or> str_contains sub cs)"

datatype styling = st_error | st_success

definition result_styling :: "string \<Rightarrow> styling" where
  "result_styling risk_level =
     (if str_contains ''High Risk'' risk_level then st_error else st_success)"

text \<open>The same choice made by equality, as the specification proposes to write it.\<close>

definition result_styling_by_equality :: "string \<Rightarrow> styling" where
  "result_styling_by_equality risk_level =
     (if risk_level = ''High Risk'' then st_error else st_success)"

subsection \<open>Valid observations\<close>

text \<open>
  The domain table of the specification, with the two labels that are matched without
  regard to case (\<^verbatim>\<open>sex_label\<close>, \<^verbatim>\<open>exang_label\<close>) in every case variant.
\<close>

definition labels_valid :: "HeartFeatures \<Rightarrow> bool" where
  "labels_valid d \<longleftrightarrow>
     sex_label d \<in> set (case_variants ''male'' @ case_variants ''female'') \<and>
     cp_label d \<in> set [''Typical angina'', ''Atypical angina'', ''Non-anginal pain'', ''Asymptomatic''] \<and>
     restecg_label d \<in> set [''Normal'', ''ST-T wave abnormality'', ''Left ventricular hypertrophy''] \<and>
     exang_label d \<in> set (case_variants ''yes'' @ case_variants ''no'') \<and>
     thal_label d \<in> set [''Normal'', ''Fixed defect'', ''Reversible defect'']"

text \<open>A float in a closed range is a finite one between the bounds.\<close>

fun in_range :: "real \<Rightarrow> real \<Rightarrow> pyfloat \<Rightarrow> bool" where
  "in_range lo hi (Finite x) = (lo \<le> x \<and> x \<le> hi)"
| "in_range lo hi PosInf = False"
| "in_range lo hi NegInf = False"
| "in_range lo hi NaN = False"

definition numerics_valid :: "HeartFeatures \<Rightarrow> bool" where
  "numerics_valid d \<longleftrightarrow>
     25 \<le> age d \<and> age d \<le> 90 \<and>
     in_range 80 250 (trestbps d) \<and>
     in_range 100 600 (chol d) \<and>
     60 \<le> fbs_raw d \<and> fbs_raw d \<le> 150 \<and>
     in_range 60 220 (thalachh d) \<and>
     in_range 0 6.5 (oldpeak d) \<and>
     slope d \<in> {0, 1, 2} \<and> ca d \<in> {0, 1, 2, 3}"

definition valid_observation :: "HeartFeatures \<Rightarrow> bool" where
  "valid_observation d \<longleftrightarrow> numerics_valid d \<and> labels_valid d"

subsection \<open>Examples\<close>

text \<open>The end-to-end scenario of the specification.\<close>

definition scenario :: HeartFeatures where
  "scenario =
     \<lparr>age = 63, sex_label = ''Male'', cp_label = ''Asymptomatic'', trestbps = Finite 145,
      chol = Finite 233, fbs_raw = 150, restecg_label = ''Left ventricular hypertrophy'',
      thalachh = Finite 150, exang_label = ''No'', oldpeak = Finite 2.3, slope = 0, ca = 0,
      thal_label = ''Fixed defect''\<rparr>"

text \<open>The table that the scenario is encoded to.\<close>

definition scenario_table :: dataframe where
  "scenario_table =
     [(''age'', Some (PyInt 63)), (''sex'', Some (PyInt 1)), (''cp'', Some (PyInt 3)),
      (''trestbps'', Some (PyFloat (Finite 145))), (''chol'', Some (PyFloat (Finite 233))),
      (''fbs'', Some (PyInt 1)), (''restecg'', Some (PyInt 2)),
      (''thalachh'', Some (PyFloat (Finite 150))), (''exang'', Some (PyInt 0)),
      (''oldpeak'', Some (PyFloat (Finite 2.3))), (''slope'', Some (PyInt 0)),
      (''ca'', Some (PyInt 0)), (''thal'', Some (PyInt 2))]"

text \<open>A model that puts every row in class 1 with probability 0.87654.\<close>

definition constant_model :: model where
  "constant_model = \<lparr>predict = (\<lambda>df. 1), predict_proba = (\<lambda>df. [0.12346, 0.87654])\<rparr>"

section \<open>Properties\<close>

subsection \<open>Lowering and case variants\<close>

lemma lower_char_eq_iff:
  assumes "97 \<le> (of_char c :: nat)" "(of_char c :: nat) \<le> 122"
  shows "lower_char x = c \<longleftrightarrow> x = c \<or> x = upper_char c"
proof (cases "65 \<le> (of_char x :: nat) \<and> (of_char x :: nat) \<le> 90")
  case True
  then have "lower_char x = char_of (of_char x + 32 :: nat)"
    by (simp add: lower_char_def)
  moreover have "upper_char c = char_of (of_char c - 32 :: nat)"
    using assms by (simp add: upper_char_def)
  moreover have "x \<noteq> c" using True assms by auto
  moreover have "char_of (of_char x + 32 :: nat) = c \<longleftrightarrow> (of_char x + 32 :: nat) = of_char c"
  proof
    assume "char_of (of_char x + 32 :: nat) = c"
    then have "(of_char (char_of (of_char x + 32 :: nat)) :: nat) = of_char c" by simp
    then show "(of_char x + 32 :: nat) = of_char c" using True by simp
  next
    assume "(of_char x + 32 :: nat) = of_char c"
    then show "char_of (of_char x + 32 :: nat) = c" by simp
  qed
  moreover have "x = char_of (of_char c - 32 :: nat) \<longleftrightarrow> (of_char x + 32 :: nat) = of_char c"
  proof
    assume "x = char_of (of_char c - 32 :: nat)"
    then have "(of_char x :: nat) = of_char (char_of (of_char c - 32 :: nat))" by simp
    then show "(of_char x + 32 :: nat) = of_char c" using assms by simp
  next
    assume h: "(of_char x + 32 :: nat) = of_char c"
    have "char_of (of_char x :: nat) = x" by simp
    moreover have "(of_char c - 32 :: nat) = of_char x" using h by arith
    ultimately show "x = char_of (of_char c - 32 :: nat)" by simp
  qed
  ultimately show ?thesis by simp
next
  case False
  then have l: "lower_char x = x" by (auto simp add: lower_char_def)
  have "upper_char c = char_of (of_char c - 32 :: nat)"
    using assms by (simp add: upper_char_def)
  then have "(of_char (upper_char c) :: nat) = of_char c - 32" using assms by simp
  then have "x \<noteq> upper_char c" using False assms by auto
  then show ?thesis using l by auto
qed

text \<open>A string lowers to a word of small letters exactly when it is a case variant of it.\<close>

lemma lower_eq_case_variants:
  "lowercase_word w \<Longrightarrow> lower s = w \<longleftrightarrow> s \<in> set (case_variants w)"
proof (induction w arbitrary: s)
  case Nil
  then show ?case by (simp add: lower_def)
next
  case (Cons c w)
  then have c: "97 \<le> (of_char c :: nat)" "(of_char c :: nat) \<le> 122" and w: "lowercase_word w"
    by (simp_all add: lowercase_word_def)
  show ?case
  proof (cases s)
    case Nil
    then show ?thesis by (auto simp add: lower_def)
  next
    case (Cons x xs)
    have "lower (x # xs) = c # w \<longleftrightarrow> lower_char x = c \<and> lower xs = w"
      by (simp add: lower_def)
    also have "\<dots> \<longleftrightarrow> (x = c \<or> x = upper_char c) \<and> xs \<in> set (case_variants w)"
      using lower_char_eq_iff [OF c] Cons.IH [OF w] by simp
    also have "\<dots> \<longleftrightarrow> x # xs \<in> set (case_variants (c # w))"
      by auto
    finally show ?thesis using Cons by simp
  qed
qed

lemma lowercase_literals:
  "lowercase_word ''male''" "lowercase_word ''female''"
  "lowercase_word ''yes''" "lowercase_word ''no''"
  by (simp_all add: lowercase_word_def)

subsection \<open>The computed fields\<close>

text \<open>
  C4. For every in-range \<^verbatim>\<open>fbs_raw\<close> the derived flag is 1 if \<^verbatim>\<open>fbs_raw > 120\<close> and 0
  otherwise; at 120 it is 0 and at 121 it is 1. The computed field never raises.
\<close>

theorem fbs_threshold:
  "(60 \<le> fbs_raw d \<and> fbs_raw d \<le> 150 \<longrightarrow> fbs d = Inr (if fbs_raw d > 120 then 1 else 0)) \<and>
   fbs (d\<lparr>fbs_raw := 120\<rparr>) = Inr 0 \<and>
   fbs (d\<lparr>fbs_raw := 121\<rparr>) = Inr 1"
  by (simp add: fbs_def)

theorem fbs_threshold_witness:
  "60 \<le> fbs_raw scenario \<and> fbs_raw scenario \<le> 150 \<and> fbs scenario = Inr 1 \<and>
   fbs (scenario\<lparr>fbs_raw := 120\<rparr>) = Inr 0 \<and> fbs (scenario\<lparr>fbs_raw := 121\<rparr>) = Inr 1"
  using fbs_threshold [of scenario] by (simp add: scenario_def)

text \<open>
  C5. The sex encoding gives 1 exactly for the case variants of \<^verbatim>\<open>male\<close>, 0 exactly for
  the case variants of \<^verbatim>\<open>female\<close>, and for every other string it raises the
  \<^verbatim>\<open>ValueError\<close> with the invalid-gender-label message.
\<close>

theorem sex_encoding:
  "(sex d = Inr 1 \<longleftrightarrow> sex_label d \<in> set (case_variants ''male'')) \<and>
   (sex d = Inr 0 \<longleftrightarrow> sex_label d \<in> set (case_variants ''female'')) \<and>
   (sex_label d \<notin> set (case_variants ''male'') \<and> sex_label d \<notin> set (case_variants ''female'')
      \<longrightarrow> sex d = Inl (ValueError ''Invalid gender label: Must be 'Male' or 'Female'.''))"
  using lower_eq_case_variants [OF lowercase_literals(1), of "sex_label d"]
    lower_eq_case_variants [OF lowercase_literals(2), of "sex_label d"]
  by (auto simp add: sex_def Let_def)

theorem sex_encoding_witness:
  "''Unknown'' \<notin> set (case_variants ''male'') \<and> ''Unknown'' \<notin> set (case_variants ''female'') \<and>
   ''Male'' \<in> set (case_variants ''male'') \<and> ''FEMALE'' \<in> set (case_variants ''female'') \<and>
   sex (scenario\<lparr>sex_label := ''Unknown''\<rparr>)
     = Inl (ValueError ''Invalid gender label: Must be 'Male' or 'Female'.'') \<and>
   sex (scenario\<lparr>sex_label := ''Male''\<rparr>) = Inr 1 \<and>
   sex (scenario\<lparr>sex_label := ''FEMALE''\<rparr>) = Inr 0"
  using sex_encoding [of "scenario\<lparr>sex_label := ''Unknown''\<rparr>"]
    sex_encoding [of "scenario\<lparr>sex_label := ''Male''\<rparr>"]
    sex_encoding [of "scenario\<lparr>sex_label := ''FEMALE''\<rparr>"]
  by (simp add: upper_char_def char_of_def bit_Suc_0_iff)

text \<open>
  C6. The thal encoding gives 1, 2, 3 exactly for \<^verbatim>\<open>Normal\<close>, \<^verbatim>\<open>Fixed defect\<close>,
  \<^verbatim>\<open>Reversible defect\<close>, never 0, and raises \<^verbatim>\<open>ValueError\<close> for every other string.
\<close>

theorem thal_encoding:
  "(thal d = Inr 1 \<longleftrightarrow> thal_label d = ''Normal'') \<and>
   (thal d = Inr 2 \<longleftrightarrow> thal_label d = ''Fixed defect'') \<and>
   (thal d = Inr 3 \<longleftrightarrow> thal_label d = ''Reversible defect'') \<and>
   thal d \<noteq> Inr 0 \<and>
   (thal_label d \<notin> {''Normal'', ''Fixed defect'', ''Reversible defect''}
      \<longrightarrow> thal d = Inl (ValueError (''Invalid Thalassemia label: '' @ quote (thal_label d) @ ''.'')))"
  by (simp add: thal_def thal_map_def)

theorem thal_encoding_witness:
  "''normal'' \<notin> {''Normal'', ''Fixed defect'', ''Reversible defect''} \<and>
   thal (scenario\<lparr>thal_label := ''normal''\<rparr>)
     = Inl (ValueError ''Invalid Thalassemia label: 'normal'.'') \<and>
   thal scenario = Inr 2"
  using thal_encoding [of "scenario\<lparr>thal_label := ''normal''\<rparr>"] thal_encoding [of scenario]
  by (simp add: scenario_def quote_def)

subsection \<open>Validation of the body\<close>

lemma in_range_iff: "in_range lo hi v \<longleftrightarrow> float_ge v lo \<and> float_le v hi"
  by (cases v) simp_all

lemma check_range_Nil:
  "check_range name lo hi v = [] \<longleftrightarrow> float_ge (number v) lo \<and> float_le (number v) hi"
  by (simp add: check_range_def)

lemma check_literal_Nil:
  "check_literal name allowed v = [] \<longleftrightarrow> - (2 ^ 63) \<le> v \<and> v < 2 ^ 63 \<and> v \<in> set allowed"
  by (auto simp add: check_literal_def)

text \<open>The body passes validation exactly when its numeric fields are in their domains.\<close>

lemma field_errors_Nil: "field_errors d = [] \<longleftrightarrow> numerics_valid d"
  unfolding field_errors_def numerics_valid_def append_is_Nil_conv check_range_Nil
    check_literal_Nil in_range_iff
  by auto

subsection \<open>Reading the dictionary literal\<close>

text \<open>Reading the literal only ever adds computed-field events to the trace.\<close>

lemma eval_dict_trace:
  "eval_dict items d acc tr = (r, tr') \<Longrightarrow>
     \<exists>suf. tr' = tr @ suf \<and> Predict \<notin> set suf \<and> PredictProba \<notin> set suf"
proof (induction items d acc tr rule: eval_dict.induct)
  case (1 data acc tr)
  then show ?case by simp
next
  case (2 k f rest data acc tr)
  then show ?case by simp
next
  case (3 k f rest data acc tr)
  show ?case
  proof (cases "f data")
    case (Inl e)
    with 3(2) show ?thesis by auto
  next
    case (Inr v)
    with 3(2) have "eval_dict rest data (acc @ [(k, PyInt v)]) (tr @ [ComputedField k]) = (r, tr')"
      by simp
    from 3(1) [OF Inr this] obtain suf where "tr' = (tr @ [ComputedField k]) @ suf"
      "Predict \<notin> set suf" "PredictProba \<notin> set suf"
      by blast
    then have "tr' = tr @ (ComputedField k # suf) \<and> Predict \<notin> set (ComputedField k # suf)
       \<and> PredictProba \<notin> set (ComputedField k # suf)" by simp
    then show ?thesis by blast
  qed
qed

lemma eval_dict_raised:
  "eval_dict items d acc tr = (Inl e, tr') \<Longrightarrow>
     \<exists>k f. tr' \<noteq> [] \<and> last tr' = ComputedField k \<and> (k, Computed f) \<in> set items \<and> f d = Inl e"
proof (induction items d acc tr rule: eval_dict.induct)
  case (1 data acc tr)
  then show ?case by simp
next
  case (2 k f rest data acc tr)
  then have "eval_dict rest data (acc @ [(k, f data)]) tr = (Inl e, tr')" by simp
  from 2(1) [OF this] show ?case by auto
next
  case (3 k f rest data acc tr)
  show ?case
  proof (cases "f data")
    case (Inl e')
    with 3(2) have "tr' = tr @ [ComputedField k]" "e' = e" by simp_all
    with Inl have "tr' \<noteq> [] \<and> last tr' = ComputedField k \<and>
       (k, Computed f) \<in> set ((k, Computed f) # rest) \<and> f data = Inl e" by simp
    then show ?thesis by blast
  next
    case (Inr v)
    with 3(2) have "eval_dict rest data (acc @ [(k, PyInt v)]) (tr @ [ComputedField k]) = (Inl e, tr')"
      by simp
    from 3(1) [OF Inr this] show ?thesis by auto
  qed
qed

lemma eval_dict_Inr:
  "eval_dict items d acc tr = (Inr row, tr') \<Longrightarrow> (k', Computed f') \<in> set items
     \<Longrightarrow> \<exists>v. f' d = Inr v"
proof (induction items d acc tr rule: eval_dict.induct)
  case (1 data acc tr)
  then show ?case by simp
next
  case (2 k f rest data acc tr)
  then show ?case by simp
next
  case (3 k f rest data acc tr)
  show ?case
  proof (cases "f data")
    case (Inl e)
    with 3(2) show ?thesis by simp
  next
    case (Inr v)
    with 3(2) have run: "eval_dict rest data (acc @ [(k, PyInt v)]) (tr @ [ComputedField k]) = (Inr row, tr')"
      by simp
    show ?thesis
    proof (cases "(k', Computed f') \<in> set rest")
      case True
      from 3(1) [OF Inr run True] show ?thesis .
    next
      case False
      with 3(3) have "f' = f" by simp
      with Inr show ?thesis by simp
    qed
  qed
qed

lemma eval_row_literal_ok:
  assumes "sex d = Inr a" "cp d = Inr b" "fbs d = Inr c" "restecg d = Inr e"
    "exang d = Inr f" "thal d = Inr g"
  shows "eval_dict row_literal d [] [] =
    (Inr [(''age'', PyInt (age d)), (''sex'', PyInt a), (''cp'', PyInt b),
          (''trestbps'', PyFloat (trestbps d)), (''chol'', PyFloat (chol d)),
          (''fbs'', PyInt c), (''restecg'', PyInt e),
          (''thalachh'', PyFloat (thalachh d)), (''exang'', PyInt f),
          (''oldpeak'', PyFloat (oldpeak d)), (''slope'', PyInt (slope d)),
          (''ca'', PyInt (ca d)), (''thal'', PyInt g)],
     [ComputedField ''sex'', ComputedField ''cp'', ComputedField ''fbs'',
      ComputedField ''restecg'', ComputedField ''exang'', ComputedField ''thal''])"
  by (simp add: row_literal_def assms)

lemma build_input_df_ok:
  assumes "sex d = Inr a" "cp d = Inr b" "fbs d = Inr c" "restecg d = Inr e"
    "exang d = Inr f" "thal d = Inr g"
  shows "build_input_df d =
    (Inr [(''age'', Some (PyInt (age d))), (''sex'', Some (PyInt a)), (''cp'', Some (PyInt b)),
          (''trestbps'', Some (PyFloat (trestbps d))), (''chol'', Some (PyFloat (chol d))),
          (''fbs'', Some (PyInt c)), (''restecg'', Some (PyInt e)),
          (''thalachh'', Some (PyFloat (thalachh d))), (''exang'', Some (PyInt f)),
          (''oldpeak'', Some (PyFloat (oldpeak d))), (''slope'', Some (PyInt (slope d))),
          (''ca'', Some (PyInt (ca d))), (''thal'', Some (PyInt g))],
     [ComputedField ''sex'', ComputedField ''cp'', ComputedField ''fbs'',
      ComputedField ''restecg'', ComputedField ''exang'', ComputedField ''thal''])"
  unfolding build_input_df_def eval_row_literal_ok [OF assms]
  by (simp add: DataFrame_def FEATURE_ORDER_def)

subsection \<open>Which labels the computed fields accept\<close>

lemma sex_cases:
  "sex_label d \<in> set (case_variants ''male'' @ case_variants ''female'')
     \<longleftrightarrow> sex d = Inr 0 \<or> sex d = Inr 1"
  using lower_eq_case_variants [OF lowercase_literals(1), of "sex_label d"]
    lower_eq_case_variants [OF lowercase_literals(2), of "sex_label d"]
  by (auto simp add: sex_def Let_def)

lemma sex_raises:
  "sex_label d \<notin> set (case_variants ''male'' @ case_variants ''female'')
     \<longleftrightarrow> (\<exists>msg. sex d = Inl (ValueError msg))"
  using lower_eq_case_variants [OF lowercase_literals(1), of "sex_label d"]
    lower_eq_case_variants [OF lowercase_literals(2), of "sex_label d"]
  by (auto simp add: sex_def Let_def)

lemma exang_cases:
  "exang_label d \<in> set (case_variants ''yes'' @ case_variants ''no'')
     \<longleftrightarrow> exang d = Inr 0 \<or> exang d = Inr 1"
  using lower_eq_case_variants [OF lowercase_literals(3), of "exang_label d"]
    lower_eq_case_variants [OF lowercase_literals(4), of "exang_label d"]
  by (auto simp add: exang_def)

lemma exang_raises:
  "exang_label d \<notin> set (case_variants ''yes'' @ case_variants ''no'')
     \<longleftrightarrow> (\<exists>msg. exang d = Inl (ValueError msg))"
  using lower_eq_case_variants [OF lowercase_literals(3), of "exang_label d"]
    lower_eq_case_variants [OF lowercase_literals(4), of "exang_label d"]
  by (auto simp add: exang_def)

lemma cp_cases:
  "cp_label d \<in> set [''Typical angina'', ''Atypical angina'', ''Non-anginal pain'', ''Asymptomatic'']
     \<longleftrightarrow> cp d = Inr 0 \<or> cp d = Inr 1 \<or> cp d = Inr 2 \<or> cp d = Inr 3"
  by (simp add: cp_def cp_map_def)

lemma cp_raises:
  "cp_label d \<notin> set [''Typical angina'', ''Atypical angina'', ''Non-anginal pain'', ''Asymptomatic'']
     \<longleftrightarrow> (\<exists>msg. cp d = Inl (ValueError msg))"
  by (simp add: cp_def cp_map_def)

lemma restecg_cases:
  "restecg_label d \<in> set [''Normal'', ''ST-T wave abnormality'', ''Left ventricular hypertrophy'']
     \<longleftrightarrow> restecg d = Inr 0 \<or> restecg d = Inr 1 \<or> restecg d = Inr 2"
  by (simp add: restecg_def ecg_map_def)

lemma restecg_raises:
  "restecg_label d \<notin> set [''Normal'', ''ST-T wave abnormality'', ''Left ventricular hypertrophy'']
     \<longleftrightarrow> (\<exists>msg. restecg d = Inl (ValueError msg))"
  by (simp add: restecg_def ecg_map_def)

lemma thal_cases:
  "thal_label d \<in> set [''Normal'', ''Fixed defect'', ''Reversible defect'']
     \<longleftrightarrow> thal d = Inr 1 \<or> thal d = Inr 2 \<or> thal d = Inr 3"
  by (simp add: thal_def thal_map_def)

lemma thal_raises:
  "thal_label d \<notin> set [''Normal'', ''Fixed defect'', ''Reversible defect'']
     \<longleftrightarrow> (\<exists>msg. thal d = Inl (ValueError msg))"
  by (simp add: thal_def thal_map_def)

lemma fbs_cases: "fbs d = Inr 0 \<or> fbs d = Inr 1"
  by (simp add: fbs_def)

lemma labels_valid_cases:
  "labels_valid d \<longleftrightarrow>
     (sex d = Inr 0 \<or> sex d = Inr 1) \<and>
     (cp d = Inr 0 \<or> cp d = Inr 1 \<or> cp d = Inr 2 \<or> cp d = Inr 3) \<and>
     (restecg d = Inr 0 \<or> restecg d = Inr 1 \<or> restecg d = Inr 2) \<and>
     (exang d = Inr 0 \<or> exang d = Inr 1) \<and>
     (thal d = Inr 1 \<or> thal d = Inr 2 \<or> thal d = Inr 3)"
  unfolding labels_valid_def sex_cases cp_cases restecg_cases exang_cases thal_cases ..

lemma labels_invalid_raises:
  assumes "\<not> labels_valid d"
  shows "\<exists>k f msg. (k, Computed f) \<in> set row_literal \<and> f d = Inl (ValueError msg)"
proof -
  from assms consider
      "sex_label d \<notin> set (case_variants ''male'' @ case_variants ''female'')"
    | "cp_label d \<notin> set [''Typical angina'', ''Atypical angina'', ''Non-anginal pain'', ''Asymptomatic'']"
    | "restecg_label d \<notin> set [''Normal'', ''ST-T wave abnormality'', ''Left ventricular hypertrophy'']"
    | "exang_label d \<notin> set (case_variants ''yes'' @ case_variants ''no'')"
    | "thal_label d \<notin> set [''Normal'', ''Fixed defect'', ''Reversible defect'']"
    unfolding labels_valid_def by blast
  then show ?thesis
  proof cases
    case 1
    then obtain msg where "sex d = Inl (ValueError msg)" unfolding sex_raises ..
    moreover have "(''sex'', Computed sex) \<in> set row_literal" by (simp add: row_literal_def)
    ultimately show ?thesis by blast
  next
    case 2
    then obtain msg where "cp d = Inl (ValueError msg)" unfolding cp_raises ..
    moreover have "(''cp'', Computed cp) \<in> set row_literal" by (simp add: row_literal_def)
    ultimately show ?thesis by blast
  next
    case 3
    then obtain msg where "restecg d = Inl (ValueError msg)" unfolding restecg_raises ..
    moreover have "(''restecg'', Computed restecg) \<in> set row_literal" by (simp add: row_literal_def)
    ultimately show ?thesis by blast
  next
    case 4
    then obtain msg where "exang d = Inl (ValueError msg)" unfolding exang_raises ..
    moreover have "(''exang'', Computed exang) \<in> set row_literal" by (simp add: row_literal_def)
    ultimately show ?thesis by blast
  next
    case 5
    then obtain msg where "thal d = Inl (ValueError msg)" unfolding thal_raises ..
    moreover have "(''thal'', Computed thal) \<in> set row_literal" by (simp add: row_literal_def)
    ultimately show ?thesis by blast
  qed
qed

subsection \<open>Building the table\<close>

lemma valid_build:
  assumes "labels_valid d"
  shows "\<exists>a b c e f g. a \<in> {0, 1} \<and> b \<in> {0, 1, 2, 3} \<and> c \<in> {0, 1} \<and> e \<in> {0, 1, 2} \<and>
           f \<in> {0, 1} \<and> g \<in> {1, 2, 3} \<and>
           sex d = Inr a \<and> cp d = Inr b \<and> fbs d = Inr c \<and> restecg d = Inr e \<and>
           exang d = Inr f \<and> thal d = Inr g"
proof -
  from assms have l:
    "sex d = Inr 0 \<or> sex d = Inr 1"
    "cp d = Inr 0 \<or> cp d = Inr 1 \<or> cp d = Inr 2 \<or> cp d = Inr 3"
    "restecg d = Inr 0 \<or> restecg d = Inr 1 \<or> restecg d = Inr 2"
    "exang d = Inr 0 \<or> exang d = Inr 1"
    "thal d = Inr 1 \<or> thal d = Inr 2 \<or> thal d = Inr 3"
    unfolding labels_valid_cases by blast+
  from l(1) obtain a where a: "sex d = Inr a" "a \<in> {0, 1}" by auto
  from l(2) obtain b where b: "cp d = Inr b" "b \<in> {0, 1, 2, 3}" by auto
  from fbs_cases [of d] obtain c where c: "fbs d = Inr c" "c \<in> {0, 1}" by auto
  from l(3) obtain e where e: "restecg d = Inr e" "e \<in> {0, 1, 2}" by auto
  from l(4) obtain f where f: "exang d = Inr f" "f \<in> {0, 1}" by auto
  from l(5) obtain g where g: "thal d = Inr g" "g \<in> {1, 2, 3}" by auto
  from a b c e f g show ?thesis by blast
qed

lemma invalid_build:
  assumes "\<not> labels_valid d"
  shows "\<exists>k f msg tr. build_input_df d = (Inl (ValueError msg), tr) \<and> tr \<noteq> [] \<and>
           last tr = ComputedField k \<and> (k, Computed f) \<in> set row_literal \<and>
           f d = Inl (ValueError msg) \<and> Predict \<notin> set tr \<and> PredictProba \<notin> set tr"
proof -
  from labels_invalid_raises [OF assms] obtain k0 f0 msg0
    where bad: "(k0, Computed f0) \<in> set row_literal" "f0 d = Inl (ValueError msg0)" by blast
  obtain r tr where run: "eval_dict row_literal d [] [] = (r, tr)" by (cases "eval_dict row_literal d [] []")
  have "\<exists>e. r = Inl e"
  proof (cases r)
    case (Inl e)
    then show ?thesis by simp
  next
    case (Inr row)
    with run eval_dict_Inr [of row_literal d "[]" "[]" row tr k0 f0] bad show ?thesis by simp
  qed
  then obtain e where r: "r = Inl e" ..
  from eval_dict_raised [of row_literal d "[]" "[]" e tr] run r
  obtain k f where kf: "tr \<noteq> []" "last tr = ComputedField k" "(k, Computed f) \<in> set row_literal"
    "f d = Inl e" by blast
  have "\<exists>msg. e = ValueError msg"
  proof (cases e)
    case (ValueError msg)
    then show ?thesis by simp
  next
    case IndexError
    from kf(3) have "f = sex \<or> f = cp \<or> f = fbs \<or> f = restecg \<or> f = exang \<or> f = thal"
      by (auto simp add: row_literal_def)
    with kf(4) IndexError show ?thesis
      by (auto simp add: sex_def cp_def fbs_def restecg_def exang_def thal_def Let_def
          split: if_splits option.splits)
  qed
  then obtain msg where e: "e = ValueError msg" ..
  from eval_dict_trace [OF run] have "Predict \<notin> set tr" "PredictProba \<notin> set tr" by auto
  with run r e kf show ?thesis by (auto simp add: build_input_df_def)
qed

subsection \<open>Rounding\<close>

lemma round_half_even_close: "\<bar>of_int (round_half_even x) - x\<bar> \<le> 1 / 2"
proof -
  have "of_int \<lfloor>x\<rfloor> \<le> x" "x < of_int \<lfloor>x\<rfloor> + 1" by linarith+
  then show ?thesis by (auto simp add: round_half_even_def Let_def)
qed

lemma py_round_close: "\<bar>py_round x n - x\<bar> \<le> 1 / (2 * 10 ^ n)"
proof -
  have pos: "(0::real) < 10 ^ n" by simp
  have "\<bar>py_round x n - x\<bar> = \<bar>of_int (round_half_even (x * 10 ^ n)) - x * 10 ^ n\<bar> / 10 ^ n"
    using pos by (simp add: py_round_def field_simps flip: abs_mult)
  also have "\<dots> \<le> (1 / 2) / 10 ^ n"
    by (rule divide_right_mono [OF round_half_even_close]) simp
  finally show ?thesis by simp
qed

lemma py_round_grid: "py_round x n * 10 ^ n = of_int (round_half_even (x * 10 ^ n))"
  by (simp add: py_round_def)

subsection \<open>The endpoint on invalid requests and without a model\<close>

text \<open>The definitions that evaluate a concrete request.\<close>

lemmas request_eval =
  post_predict_def predict_heart_def build_input_df_def row_literal_def DataFrame_def
  FEATURE_ORDER_def field_errors_def check_range_def check_literal_def renderable_def
  getitem_def
  sex_def cp_def fbs_def restecg_def exang_def thal_def cp_map_def ecg_map_def thal_map_def
  quote_def Let_def lower_def lower_char_def constant_model_def

lemmas validity_eval =
  numerics_valid_def labels_valid_def valid_observation_def upper_char_def

lemmas example_eval = scenario_def char_of_def bit_Suc_0_iff

text \<open>A body that fails validation never reaches the handler.\<close>

lemma post_predict_rejected:
  "\<not> numerics_valid body \<Longrightarrow>
     post_predict mp body =
       (if renderable (field_errors body)
        then (RequestValidationError (field_errors body), [])
        else (Raised (ValueError ''Out of range float values are not JSON compliant''), []))"
  by (simp add: post_predict_def field_errors_Nil)

lemma post_predict_no_model:
  "numerics_valid body \<Longrightarrow>
     post_predict None body = (JSONResponse 500 (Message ''Model not loaded.''), [])"
  by (simp add: post_predict_def field_errors_Nil predict_heart_def)

lemma post_predict_invalid_labels:
  assumes "numerics_valid body" "\<not> labels_valid body"
  shows "\<exists>k f msg tr. post_predict (Some m) body = (Raised (ValueError msg), tr) \<and> tr \<noteq> [] \<and>
           last tr = ComputedField k \<and> (k, Computed f) \<in> set row_literal \<and>
           f body = Inl (ValueError msg) \<and> Predict \<notin> set tr \<and> PredictProba \<notin> set tr"
proof -
  from invalid_build [OF assms(2)] obtain k f msg tr where
    b: "build_input_df body = (Inl (ValueError msg), tr)" and
    r: "tr \<noteq> []" "last tr = ComputedField k" "(k, Computed f) \<in> set row_literal"
       "f body = Inl (ValueError msg)" "Predict \<notin> set tr" "PredictProba \<notin> set tr"
    by blast
  from assms(1) b have "post_predict (Some m) body = (Raised (ValueError msg), tr)"
    by (simp add: post_predict_def field_errors_Nil predict_heart_def)
  with r show ?thesis by blast
qed

text \<open>
  C10. When no model is loaded, a request whose numeric fields are in range and whose
  labels are invalid is answered with status 500 and the message \<^verbatim>\<open>Model not loaded.\<close>:
  the handler tests the model before it reads any computed field (the trace is empty),
  so the \<^verbatim>\<open>ValueError\<close> that the same request raises under a loaded model is masked.
\<close>

theorem label_errors_masked:
  "numerics_valid body \<and> \<not> labels_valid body \<longrightarrow>
     post_predict None body = (JSONResponse 500 (Message ''Model not loaded.''), []) \<and>
     (\<exists>msg tr. post_predict (Some m) body = (Raised (ValueError msg), tr) \<and> tr \<noteq> [])"
  using post_predict_no_model [of body] post_predict_invalid_labels [of body m] by blast

theorem label_errors_masked_witness:
  "numerics_valid (scenario\<lparr>sex_label := ''Unknown''\<rparr>) \<and>
   \<not> labels_valid (scenario\<lparr>sex_label := ''Unknown''\<rparr>) \<and>
   post_predict None (scenario\<lparr>sex_label := ''Unknown''\<rparr>)
     = (JSONResponse 500 (Message ''Model not loaded.''), []) \<and>
   post_predict (Some constant_model) (scenario\<lparr>sex_label := ''Unknown''\<rparr>)
     = (Raised (ValueError ''Invalid gender label: Must be 'Male' or 'Female'.''),
        [ComputedField ''sex''])"
  using label_errors_masked [of "scenario\<lparr>sex_label := ''Unknown''\<rparr>" constant_model]
  by (simp add: validity_eval request_eval example_eval)

text \<open>
  The path of the start that the code handles: when both loads raise
  \<^verbatim>\<open>FileNotFoundError\<close>, the service runs without a model and every body that passes
  validation gets the fixed answer, with nothing computed and nothing raised.
\<close>

lemma service_without_model:
  assumes "joblib_load ''../rf_pipeline.joblib'' = FileNotFoundError"
    and "joblib_load ''rf_pipeline.joblib'' = FileNotFoundError"
    and "numerics_valid body"
  shows "service joblib_load body = Some (JSONResponse 500 (Message ''Model not loaded.''), [])"
  using assms post_predict_no_model [of body]
  by (simp add: service_def load_model_pipeline_def)

text \<open>Any other failure of a load that is reached stops the start.\<close>

lemma load_crashes:
  "joblib_load ''../rf_pipeline.joblib'' = OtherError \<or>
   joblib_load ''../rf_pipeline.joblib'' = FileNotFoundError \<and>
   joblib_load ''rf_pipeline.joblib'' = OtherError
   \<Longrightarrow> service joblib_load body = None"
  by (auto simp add: service_def load_model_pipeline_def)

text \<open>
  C3. If the artifact fails to load at startup, every later \<^verbatim>\<open>POST /predict\<close> is to get
  status 500 with the message \<^verbatim>\<open>Model not loaded.\<close>, nothing computed and nothing raised.
  The code does so for the scenario when both files are missing (last conjunct). It does
  not when the artifact is there and cannot be read, at the first path or at the second
  after the first is missing: only \<^verbatim>\<open>FileNotFoundError\<close> is caught, the exception leaves
  the module, and there is no service to answer the request.
\<close>

theorem corrupt_artifact_stops_service:
  "load_model_pipeline (\<lambda>path. OtherError) = Crashed \<and>
   service (\<lambda>path. OtherError) scenario = None \<and>
   service (\<lambda>path. if path = ''../rf_pipeline.joblib'' then FileNotFoundError else OtherError)
     scenario = None \<and>
   service (\<lambda>path. FileNotFoundError) scenario
     = Some (JSONResponse 500 (Message ''Model not loaded.''), [])"
  by (simp add: service_def load_model_pipeline_def request_eval example_eval)

text \<open>
  C1. A request with a field outside its declared domain is to get a client error that
  names the field and the constraint, before any mapping runs and without the model being
  invoked. The code does so for \<^verbatim>\<open>age = 10\<close> (status 422, last two conjuncts). It does not
  for a label outside its closed set: with \<^verbatim>\<open>thal_label = normal\<close> and every other field
  of the scenario, validation accepts the body, the handler runs the mappings of sex, cp,
  fbs, restecg and exang, and the mapping of thal raises a \<^verbatim>\<open>ValueError\<close> that nothing
  handles: status 500, no client error. Nor does it for a float that is not finite: the
  range check refuses it, but the answer cannot be written. In all three the model is
  not invoked.
\<close>

theorem invalid_label_unhandled:
  "numerics_valid (scenario\<lparr>thal_label := ''normal''\<rparr>) \<and>
   \<not> labels_valid (scenario\<lparr>thal_label := ''normal''\<rparr>) \<and>
   post_predict (Some constant_model) (scenario\<lparr>thal_label := ''normal''\<rparr>)
     = (Raised (ValueError ''Invalid Thalassemia label: 'normal'.''),
        [ComputedField ''sex'', ComputedField ''cp'', ComputedField ''fbs'',
         ComputedField ''restecg'', ComputedField ''exang'', ComputedField ''thal'']) \<and>
   status_code (Raised (ValueError ''Invalid Thalassemia label: 'normal'.'')) = Some 500 \<and>
   \<not> client_error (Raised (ValueError ''Invalid Thalassemia label: 'normal'.'')) \<and>
   post_predict (Some constant_model) (scenario\<lparr>chol := PosInf\<rparr>)
     = (Raised (ValueError ''Out of range float values are not JSON compliant''), []) \<and>
   post_predict (Some constant_model) (scenario\<lparr>age := 10\<rparr>)
     = (RequestValidationError [(''age'', GreaterThanEqual 25, PyInt 10)], []) \<and>
   client_error (RequestValidationError [(''age'', GreaterThanEqual 25, PyInt 10)])"
  by (simp add: validity_eval request_eval example_eval client_error_def)

subsection \<open>The client's styling\<close>

text \<open>\<^verbatim>\<open>sub in s\<close> holds exactly when \<open>sub\<close> occurs in \<open>s\<close> as a contiguous piece.\<close>

lemma startswith_iff: "startswith s p \<longleftrightarrow> (\<exists>post. s = p @ post)"
  by (induction s p rule: startswith.induct) auto

lemma str_contains_iff: "str_contains sub s \<longleftrightarrow> (\<exists>pre post. s = pre @ sub @ post)"
proof (induction s)
  case Nil
  then show ?case by auto
next
  case (Cons c cs)
  show ?case
  proof
    assume "str_contains sub (c # cs)"
    then consider "startswith (c # cs) sub" | "str_contains sub cs" by auto
    then show "\<exists>pre post. c # cs = pre @ sub @ post"
    proof cases
      case 1
      then obtain post where "c # cs = sub @ post" unfolding startswith_iff ..
      then have "c # cs = [] @ sub @ post" by simp
      then show ?thesis by blast
    next
      case 2
      with Cons obtain pre post where "cs = pre @ sub @ post" by blast
      then have "c # cs = (c # pre) @ sub @ post" by simp
      then show ?thesis by blast
    qed
  next
    assume "\<exists>pre post. c # cs = pre @ sub @ post"
    then obtain pre post where e: "c # cs = pre @ sub @ post" by blast
    show "str_contains sub (c # cs)"
    proof (cases pre)
      case Nil
      with e have "startswith (c # cs) sub" unfolding startswith_iff by auto
      then show ?thesis by simp
    next
      case (Cons x pre')
      with e have "cs = pre' @ sub @ post" by simp
      with Cons.IH have "str_contains sub cs" by blast
      then show ?thesis by simp
    qed
  qed
qed

text \<open>The two risk levels the server can put in a response, each with its class.\<close>

lemma verdict_levels:
  assumes "post_predict mp body = (JSONResponse st (Verdict c p level), tr)"
  shows "st = 200 \<and> (level = ''High Risk'' \<and> c = 1 \<or> level = ''Low Risk'' \<and> c \<noteq> 1)"
  using assms
  by (auto simp add: post_predict_def predict_heart_def Let_def
      split: if_splits option.splits sum.splits prod.splits)

text \<open>
  C9. For every risk level that the server can produce, the client's containment test
  \<^verbatim>\<open>"High Risk" in risk_level\<close> agrees with the equality test: both choose the error
  styling for exactly the responses of class 1.
\<close>

theorem styling_containment_is_equality:
  "post_predict mp body = (JSONResponse st (Verdict c p level), tr) \<longrightarrow>
     (str_contains ''High Risk'' level \<longleftrightarrow> level = ''High Risk'') \<and>
     result_styling level = result_styling_by_equality level \<and>
     (result_styling level = st_error \<longleftrightarrow> c = 1)"
proof
  assume "post_predict mp body = (JSONResponse st (Verdict c p level), tr)"
  from verdict_levels [OF this]
  consider "level = ''High Risk''" "c = 1" | "level = ''Low Risk''" "c \<noteq> 1" by blast
  then show "(str_contains ''High Risk'' level \<longleftrightarrow> level = ''High Risk'') \<and>
     result_styling level = result_styling_by_equality level \<and>
     (result_styling level = st_error \<longleftrightarrow> c = 1)"
    by cases (simp_all add: result_styling_def result_styling_by_equality_def)
qed

theorem styling_containment_is_equality_witness:
  "post_predict (Some constant_model) scenario
     = (JSONResponse 200 (Verdict 1 0.8765 ''High Risk''),
        [ComputedField ''sex'', ComputedField ''cp'', ComputedField ''fbs'',
         ComputedField ''restecg'', ComputedField ''exang'', ComputedField ''thal'',
         Predict, PredictProba]) \<and>
   str_contains ''High Risk'' ''High Risk'' \<and>
   result_styling ''High Risk'' = result_styling_by_equality ''High Risk'' \<and>
   result_styling ''High Risk'' = st_error"
  using styling_containment_is_equality [of "Some constant_model" scenario 200 1 "0.8765"
      "''High Risk''"]
  by (simp add: request_eval example_eval py_round_def round_half_even_def
      result_styling_def result_styling_by_equality_def)

subsection \<open>The table given to the model\<close>

text \<open>Once the table is built, the handler gives it to both operations of the model.\<close>

lemma predict_heart_on_table:
  assumes "build_input_df data = (Inr df, tr)"
  shows "predict_heart (Some m) data =
    (case getitem (predict_proba m df) 1 of
       Inl e \<Rightarrow> (Raised e, tr @ [Predict, PredictProba])
     | Inr risk_score \<Rightarrow>
         (JSONResponse 200
            (Verdict (predict m df) (py_round risk_score 4)
               (if predict m df = 1 then ''High Risk'' else ''Low Risk'')),
          tr @ [Predict, PredictProba]))"
  using assms by (simp add: predict_heart_def Let_def)



subsection \<open>The encoded values and the response\<close>

text \<open>Looking a column up in a table.\<close>

lemma cell_simps:
  "cell ((c, Some v) # df) c = Some v"
  "c \<noteq> c' \<Longrightarrow> cell ((c', x) # df) c = cell df c"
  by (simp_all add: cell_def)

text \<open>
  C7. For every valid observation the table is built, its mapped cells lie in the
  documented domains (sex in 0..1, cp in 0..3, fbs in 0..1, restecg in 0..2, exang in
  0..1, thal in 1..3), and the cells of age, trestbps, chol, thalachh, oldpeak, slope and
  ca hold the input values unchanged.
\<close>

theorem encoded_domains:
  "valid_observation d \<longrightarrow>
     (\<exists>df tr. build_input_df d = (Inr df, tr) \<and>
        cell df ''sex'' \<in> {Some (PyInt 0), Some (PyInt 1)} \<and>
        cell df ''cp'' \<in> {Some (PyInt 0), Some (PyInt 1), Some (PyInt 2), Some (PyInt 3)} \<and>
        cell df ''fbs'' \<in> {Some (PyInt 0), Some (PyInt 1)} \<and>
        cell df ''restecg'' \<in> {Some (PyInt 0), Some (PyInt 1), Some (PyInt 2)} \<and>
        cell df ''exang'' \<in> {Some (PyInt 0), Some (PyInt 1)} \<and>
        cell df ''thal'' \<in> {Some (PyInt 1), Some (PyInt 2), Some (PyInt 3)} \<and>
        cell df ''age'' = Some (PyInt (age d)) \<and>
        cell df ''trestbps'' = Some (PyFloat (trestbps d)) \<and>
        cell df ''chol'' = Some (PyFloat (chol d)) \<and>
        cell df ''thalachh'' = Some (PyFloat (thalachh d)) \<and>
        cell df ''oldpeak'' = Some (PyFloat (oldpeak d)) \<and>
        cell df ''slope'' = Some (PyInt (slope d)) \<and>
        cell df ''ca'' = Some (PyInt (ca d)))"
proof
  assume "valid_observation d"
  then have "labels_valid d" by (simp add: valid_observation_def)
  from valid_build [OF this] obtain a b c e f g where
    dom: "a \<in> {0, 1}" "b \<in> {0, 1, 2, 3}" "c \<in> {0, 1}" "e \<in> {0, 1, 2}" "f \<in> {0, 1}"
      "g \<in> {1, 2, 3}" and
    run: "sex d = Inr a" "cp d = Inr b" "fbs d = Inr c" "restecg d = Inr e"
      "exang d = Inr f" "thal d = Inr g" by blast
  note b = build_input_df_ok [OF run]
  show "\<exists>df tr. build_input_df d = (Inr df, tr) \<and>
        cell df ''sex'' \<in> {Some (PyInt 0), Some (PyInt 1)} \<and>
        cell df ''cp'' \<in> {Some (PyInt 0), Some (PyInt 1), Some (PyInt 2), Some (PyInt 3)} \<and>
        cell df ''fbs'' \<in> {Some (PyInt 0), Some (PyInt 1)} \<and>
        cell df ''restecg'' \<in> {Some (PyInt 0), Some (PyInt 1), Some (PyInt 2)} \<and>
        cell df ''exang'' \<in> {Some (PyInt 0), Some (PyInt 1)} \<and>
        cell df ''thal'' \<in> {Some (PyInt 1), Some (PyInt 2), Some (PyInt 3)} \<and>
        cell df ''age'' = Some (PyInt (age d)) \<and>
        cell df ''trestbps'' = Some (PyFloat (trestbps d)) \<and>
        cell df ''chol'' = Some (PyFloat (chol d)) \<and>
        cell df ''thalachh'' = Some (PyFloat (thalachh d)) \<and>
        cell df ''oldpeak'' = Some (PyFloat (oldpeak d)) \<and>
        cell df ''slope'' = Some (PyInt (slope d)) \<and>
        cell df ''ca'' = Some (PyInt (ca d))"
    unfolding b using dom by (simp add: cell_simps)
qed

theorem encoded_domains_witness:
  "valid_observation scenario \<and>
   (\<exists>df tr. build_input_df scenario = (Inr df, tr) \<and>
      cell df ''sex'' = Some (PyInt 1) \<and> cell df ''thal'' = Some (PyInt 2) \<and>
      cell df ''age'' = Some (PyInt 63) \<and> cell df ''oldpeak'' = Some (PyFloat (Finite 2.3)))"
  using encoded_domains [of scenario]
  by (simp add: validity_eval request_eval example_eval cell_simps)

text \<open>
  C8. When the table is built and the model gives a probability for class 1, the
  response has status 200, its risk level is \<^verbatim>\<open>High Risk\<close> exactly when the predicted
  class is 1 and \<^verbatim>\<open>Low Risk\<close> otherwise, and its probability is the class-1 probability
  rounded to four decimal digits: a multiple of 0.0001 at most 0.00005 away from it.
\<close>

theorem prediction_response:
  "numerics_valid data \<and> build_input_df data = (Inr df, tr) \<and>
   getitem (predict_proba m df) 1 = Inr p \<longrightarrow>
     (\<exists>level score.
        post_predict (Some m) data =
          (JSONResponse 200 (Verdict (predict m df) score level), tr @ [Predict, PredictProba]) \<and>
        (level = ''High Risk'' \<longleftrightarrow> predict m df = 1) \<and>
        (level = ''Low Risk'' \<longleftrightarrow> predict m df \<noteq> 1) \<and>
        score = py_round p 4 \<and>
        \<bar>score - p\<bar> \<le> 1 / 20000 \<and>
        (\<exists>k::int. score * 10000 = of_int k))"
proof
  assume a: "numerics_valid data \<and> build_input_df data = (Inr df, tr) \<and>
    getitem (predict_proba m df) 1 = Inr p"
  then have "post_predict (Some m) data = predict_heart (Some m) data"
    by (simp add: post_predict_def field_errors_Nil)
  with a predict_heart_on_table [of data df tr m]
  have r: "post_predict (Some m) data =
      (JSONResponse 200 (Verdict (predict m df) (py_round p 4)
          (if predict m df = 1 then ''High Risk'' else ''Low Risk'')),
       tr @ [Predict, PredictProba])" by simp
  have close: "\<bar>py_round p 4 - p\<bar> \<le> 1 / 20000"
    using py_round_close [of p 4] by simp
  have grid: "\<exists>k::int. py_round p 4 * 10000 = of_int k"
    using py_round_grid [of p 4] by auto
  from r close grid show "\<exists>level score.
        post_predict (Some m) data =
          (JSONResponse 200 (Verdict (predict m df) score level), tr @ [Predict, PredictProba]) \<and>
        (level = ''High Risk'' \<longleftrightarrow> predict m df = 1) \<and>
        (level = ''Low Risk'' \<longleftrightarrow> predict m df \<noteq> 1) \<and>
        score = py_round p 4 \<and>
        \<bar>score - p\<bar> \<le> 1 / 20000 \<and>
        (\<exists>k::int. score * 10000 = of_int k)"
    by simp
qed

theorem prediction_response_witness:
  "numerics_valid scenario \<and>
   build_input_df scenario =
     (Inr scenario_table,
      [ComputedField ''sex'', ComputedField ''cp'', ComputedField ''fbs'',
       ComputedField ''restecg'', ComputedField ''exang'', ComputedField ''thal'']) \<and>
   getitem (predict_proba constant_model scenario_table) 1 = Inr 0.87654 \<and>
   post_predict (Some constant_model) scenario =
     (JSONResponse 200 (Verdict 1 0.8765 ''High Risk''),
      [ComputedField ''sex'', ComputedField ''cp'', ComputedField ''fbs'',
       ComputedField ''restecg'', ComputedField ''exang'', ComputedField ''thal'',
       Predict, PredictProba])"
  using prediction_response [of scenario scenario_table
      "[ComputedField ''sex'', ComputedField ''cp'', ComputedField ''fbs'',
        ComputedField ''restecg'', ComputedField ''exang'', ComputedField ''thal'']"
      constant_model "0.87654"]
  by (simp add: validity_eval request_eval example_eval scenario_table_def py_round_def
      round_half_even_def)

end
